theory Spec2Isabelle
  imports Main "HOL-Library.Sublist"
begin

section \<open>The page: viewer scene, interlock checkbox and indicators\<close>

text \<open>
  The script \<^verbatim>\<open>src/app/static/js/script.js\<close> keeps all of its state in module-level
  objects: the three.js scene, the checkbox \<^verbatim>\<open>aiToggle\<close>, and the display elements
  \<^verbatim>\<open>statusDot\<close>, \<^verbatim>\<open>statusText\<close> and \<^verbatim>\<open>modeIndicator\<close>. Every handler mutates them in
  place; here the body of each handler takes the page and returns the page it leaves
  behind.
  What a handler sends to the user or to the console (\<^verbatim>\<open>alert\<close>, \<^verbatim>\<open>console.log\<close>,
  \<^verbatim>\<open>console.warn\<close>, \<^verbatim>\<open>console.error\<close>) is appended to a list of the page, so that
  "exactly one notice" is a statement about that list.

  The development has two layers. The first gives the bodies of the functions and
  listeners of the script, each as it is written. The second gives the program that the
  browser runs: the script is parsed as a whole before any statement of it is evaluated,
  and it declares \<^verbatim>\<open>const aiToggle\<close>, \<^verbatim>\<open>const statusDot\<close> and \<^verbatim>\<open>const statusText\<close>
  twice in the same scope (lines 31-33 and 53-55). That is an early \<^verbatim>\<open>SyntaxError\<close>, so
  no statement runs: no scene and no light are made, no listener is added, and no
  function of the script is defined. What an event does to the page is \<open>dispatch\<close>,
  which runs a listener only if the script ran.

  The state of the specification is read off the page as follows: \<open>disabled\<close> is
  \<^verbatim>\<open>aiToggle.checked\<close>; \<open>mode\<close> is the argument of \<^verbatim>\<open>setMode\<close>, shown as
  \<^verbatim>\<open>modeIndicator.textContent\<close> after the prefix \<^verbatim>\<open>MODE: \<close>; the status indicator
  \<open>(state, text)\<close> is the argument pair of \<^verbatim>\<open>setStatus\<close>, shown as the class
  \<^verbatim>\<open>status-dot state\<close> of \<^verbatim>\<open>statusDot\<close> and the text \<^verbatim>\<open>AI: text\<close> of \<^verbatim>\<open>statusText\<close>.
\<close>

text \<open>Values handed to the console: strings, \<^verbatim>\<open>null\<close>, and the loader's error object.\<close>

datatype jsval = JString string | JNull | JError string

text \<open>
  Objects of the scene graph. The script constructs one \<^verbatim>\<open>THREE.AmbientLight\<close> (colour,
  intensity); the loader hands over the decoded scene as a \<^verbatim>\<open>THREE.Group\<close>, told apart
  here by a number.
\<close>

datatype object3d =
    is_AmbientLight: AmbientLight nat nat
  | is_Group: Group nat

text \<open>
  The result object of \<^verbatim>\<open>GLTFLoader\<close>: \<^verbatim>\<open>gltf.scene\<close> is the decoded group. The asset
  is taken to declare a scene; what the loader hands over for an asset without one is
  outside this model.
\<close>

record gltf =
  scene :: nat

text \<open>A \<^verbatim>\<open>File\<close> of the file input; the handler reads its \<^verbatim>\<open>name\<close> only.\<close>

record File =
  name :: string

datatype error = TypeError | SyntaxError | ReferenceError

text \<open>
  The page. \<open>scene_children\<close> is \<^verbatim>\<open>scene.children\<close>, empty as long as no scene exists;
  \<open>loader_loads\<close> holds the URLs handed to the loader.
\<close>

record page =
  scene_children :: "object3d list"
  object_urls :: "File list"
  loader_loads :: "nat list"
  animation_frames :: nat
  renders :: nat
  aiToggle_checked :: bool
  statusDot_className :: string
  statusText_textContent :: string
  modeIndicator_textContent :: string
  alerts :: "string list"
  console_log :: "jsval list list"
  console_warn :: "jsval list list"
  console_error :: "jsval list list"

section \<open>The viewer as written (lines 1-30)\<close>

text \<open>\<^verbatim>\<open>const light = new THREE.AmbientLight(0xffffff, 2)\<close>\<close>

definition light :: object3d where
  "light = AmbientLight 0xffffff 2"

text \<open>
  The scene operations of the rendering library. \<^verbatim>\<open>Object3D.add\<close> detaches the object
  from its parent, if it has one, and pushes it onto \<^verbatim>\<open>children\<close>; there is one scene, so
  the only parent an object can have is that scene. \<^verbatim>\<open>Object3D.clear\<close> removes every
  child.
\<close>

definition scene_add :: "object3d \<Rightarrow> page \<Rightarrow> page" where
  "scene_add obj s = s\<lparr>scene_children := remove1 obj (scene_children s) @ [obj]\<rparr>"

definition scene_clear :: "page \<Rightarrow> page" where
  "scene_clear s = s\<lparr>scene_children := []\<rparr>"

text \<open>
  \<^verbatim>\<open>String.prototype.endsWith\<close> with one argument: the last \<open>length search\<close>
  characters of the string are compared with \<open>search\<close>, character by character.
\<close>

definition endsWith :: "string \<Rightarrow> string \<Rightarrow> bool" where
  "endsWith str search \<longleftrightarrow>
     length search \<le> length str \<and> drop (length str - length search) str = search"

text \<open>
  \<^verbatim>\<open>URL.createObjectURL(file)\<close> registers the file in the document's blob URL store and
  returns the new URL: the position of the file in the store stands for it.
\<close>

definition createObjectURL :: "File \<Rightarrow> page \<Rightarrow> nat \<times> page" where
  "createObjectURL f s = (length (object_urls s), s\<lparr>object_urls := object_urls s @ [f]\<rparr>)"

text \<open>
  \<^verbatim>\<open>loader.load(url, onLoad, undefined, onError)\<close> returns at once; the decode runs
  later and ends in exactly one of the two callbacks. The page records the request.
\<close>

definition GLTFLoader_load :: "nat \<Rightarrow> page \<Rightarrow> page" where
  "GLTFLoader_load url s = s\<lparr>loader_loads := loader_loads s @ [url]\<rparr>"

text \<open>
  \<^verbatim>\<open>animate\<close> (lines 27-30) asks for one more animation frame and renders the scene;
  rendering reads the scene and the camera and leaves the children of the scene alone.
\<close>

definition animate :: "page \<Rightarrow> page" where
  "animate s = s\<lparr>animation_frames := Suc (animation_frames s), renders := Suc (renders s)\<rparr>"

text \<open>The success callback of line 18 and the error callback of line 23.\<close>

definition onLoad :: "gltf \<Rightarrow> page \<Rightarrow> page" where
  "onLoad g s = animate (scene_add (Group (scene g)) (scene_add light (scene_clear s)))"


text \<open>
  The body of the change listener of the file input (lines 12-25), given
  \<^verbatim>\<open>e.target.files\<close>. With an
  empty list \<^verbatim>\<open>files[0]\<close> is \<^verbatim>\<open>undefined\<close>: \<^verbatim>\<open>URL.createObjectURL(undefined)\<close> on line 14
  throws a \<^verbatim>\<open>TypeError\<close>, as would \<^verbatim>\<open>file.name\<close> on line 16, and nothing has been
  mutated by then.
\<close>

definition file_selector_change :: "File list \<Rightarrow> page \<Rightarrow> error + page" where
  "file_selector_change files s =
     (case files of
        [] \<Rightarrow> Inl TypeError
      | f # _ \<Rightarrow>
          (case createObjectURL f s of
             (url, s1) \<Rightarrow>
               if endsWith (name f) ''.glb'' \<or> endsWith (name f) ''.gltf''
               then Inr (GLTFLoader_load url s1)
               else Inr s1))"

section \<open>The interlock as written (lines 31-51)\<close>

definition console_warn_call :: "jsval list \<Rightarrow> page \<Rightarrow> page" where
  "console_warn_call args s = s\<lparr>console_warn := console_warn s @ [args]\<rparr>"

text \<open>
  The body of the change listener of the checkbox (lines 35-44). The browser has set
  \<^verbatim>\<open>aiToggle.checked\<close> to the new value before it calls the handler. The dash of the
  warning is U+2014, three bytes in UTF-8.
\<close>

definition aiToggle_change :: "page \<Rightarrow> page" where
  "aiToggle_change s =
     (if aiToggle_checked s
      then console_warn_call
             [JString (''AI shutoff engaged '' @ [CHR 0xE2, CHR 0x80, CHR 0x94]
                        @ '' hardware commands blocked.'')]
             (s\<lparr>statusDot_className := ''status-dot error'',
                statusText_textContent := ''AI: DISABLED''\<rparr>)
      else s\<lparr>statusDot_className := ''status-dot idle'',
             statusText_textContent := ''AI: IDLE''\<rparr>)"

definition setAIRunning :: "page \<Rightarrow> page" where
  "setAIRunning s =
     (if \<not> aiToggle_checked s
      then s\<lparr>statusDot_className := ''status-dot running'',
             statusText_textContent := ''AI: RUNNING''\<rparr>
      else s)"

section \<open>The toolbar as written (lines 52-116)\<close>

definition setStatus :: "string \<Rightarrow> string \<Rightarrow> page \<Rightarrow> page" where
  "setStatus state text s =
     s\<lparr>statusDot_className := ''status-dot '' @ state,
       statusText_textContent := ''AI: '' @ text\<rparr>"

definition setMode :: "string \<Rightarrow> page \<Rightarrow> page" where
  "setMode mode s =
     s\<lparr>modeIndicator_textContent := ''MODE: '' @ mode,
       console_log := console_log s @ [[JString (''Switched to '' @ mode)]]\<rparr>"

definition alert :: "string \<Rightarrow> page \<Rightarrow> page" where
  "alert msg s = s\<lparr>alerts := alerts s @ [msg]\<rparr>"

text \<open>\<^verbatim>\<open>btn.getAttribute("title")\<close> is a string, or \<^verbatim>\<open>null\<close> for a button without a title.\<close>

definition attribute_value :: "string option \<Rightarrow> jsval" where
  "attribute_value a = (case a of None \<Rightarrow> JNull | Some t \<Rightarrow> JString t)"

text \<open>
  The body of the click listener of a toolbar button (lines 70-115), given the button's
  title. The
  \<^verbatim>\<open>switch\<close> compares with \<^verbatim>\<open>===\<close>, case by case, in the order of the source; the
  \<^verbatim>\<open>return\<close> of the two guarded cases ends the handler as \<^verbatim>\<open>break\<close> does, since nothing
  follows the \<^verbatim>\<open>switch\<close>.
\<close>

definition toolbtn_click :: "string option \<Rightarrow> page \<Rightarrow> page" where
  "toolbtn_click action s =
     (if action = Some ''Settings'' then
        alert ''Settings panel coming soon'' (setMode ''SETTINGS'' s)
      else if action = Some ''AI Tools'' then
        (if aiToggle_checked s
         then alert ''AI is disabled by shutoff switch.'' s
         else setStatus ''idle'' ''READY'' (setMode ''AI TOOL SELECTION'' s))
      else if action = Some ''Graphs / Analysis'' then
        setStatus ''idle'' ''IDLE'' (setMode ''ANALYSIS'' s)
      else if action = Some ''Captured Images'' then
        setMode ''IMAGE REVIEW'' s
      else if action = Some ''Human TEM Control'' then
        setStatus ''error'' ''DISABLED''
          (setMode ''HUMAN CONTROL'' (s\<lparr>aiToggle_checked := True\<rparr>))
      else if action = Some ''Automated TEM'' then
        (if aiToggle_checked s
         then alert ''Disable AI shutoff to enable automation.'' s
         else setStatus ''running'' ''RUNNING'' (setMode ''AUTOMATED TEM'' s))
      else
        console_warn_call [JString ''Unknown toolbar action:'', attribute_value action] s)"

text \<open>The six case labels of the \<^verbatim>\<open>switch\<close>.\<close>

definition toolbar_labels :: "string list" where
  "toolbar_labels =
     [''Settings'', ''AI Tools'', ''Graphs / Analysis'', ''Captured Images'',
      ''Human TEM Control'', ''Automated TEM'']"

section \<open>The script as the browser loads it\<close>

text \<open>
  The declarations at the top level of the script, in the order of the source, each with
  its line. The \<^verbatim>\<open>const\<close> declarations inside the listeners (\<^verbatim>\<open>file\<close>, \<^verbatim>\<open>url\<close>,
  \<^verbatim>\<open>loader\<close>, \<^verbatim>\<open>action\<close>) have scopes of their own.
\<close>

datatype binding = ConstDecl | FunctionDecl

definition toplevel_declarations :: "(binding \<times> string \<times> nat) list" where
  "toplevel_declarations =
     [(ConstDecl, ''scene'', 1), (ConstDecl, ''container'', 2), (ConstDecl, ''camera'', 3),
      (ConstDecl, ''renderer'', 4), (ConstDecl, ''light'', 8), (FunctionDecl, ''animate'', 27),
      (ConstDecl, ''aiToggle'', 31), (ConstDecl, ''statusDot'', 32),
      (ConstDecl, ''statusText'', 33), (FunctionDecl, ''setAIRunning'', 46),
      (ConstDecl, ''modeIndicator'', 52), (ConstDecl, ''aiToggle'', 53),
      (ConstDecl, ''statusDot'', 54), (ConstDecl, ''statusText'', 55),
      (ConstDecl, ''toolButtons'', 57), (FunctionDecl, ''setStatus'', 59),
      (FunctionDecl, ''setMode'', 64)]"

definition declared_names :: "binding \<Rightarrow> (binding \<times> string \<times> nat) list \<Rightarrow> string list" where
  "declared_names k ds = map (\<lambda>d. fst (snd d)) (filter (\<lambda>d. fst d = k) ds)"

text \<open>
  The early errors of a script body: a name declared lexically (\<^verbatim>\<open>const\<close>) twice, or
  declared both lexically and as a top-level function. A script with an early error is
  rejected before any of it is evaluated.
\<close>

definition early_error :: "(binding \<times> string \<times> nat) list \<Rightarrow> bool" where
  "early_error ds \<longleftrightarrow>
     \<not> (distinct (declared_names ConstDecl ds)
        \<and> set (declared_names ConstDecl ds) \<inter> set (declared_names FunctionDecl ds) = {})"

text \<open>
  Loading \<^verbatim>\<open>script.js\<close> into a document: with an early error nothing happens to the
  page; otherwise the top-level statements run, of which line 9 adds the light to the
  scene, and the listeners are in place.
\<close>

definition script_js :: "page \<Rightarrow> error + page" where
  "script_js d =
     (if early_error toplevel_declarations then Inl SyntaxError
      else Inr (scene_add light d))"

text \<open>The page together with whether the script ran, that is whether its listeners and
  functions exist.\<close>

record browser =
  script_ran :: bool
  doc :: page

definition load_script :: "page \<Rightarrow> browser" where
  "load_script d =
     (case script_js d of
        Inl e \<Rightarrow> \<lparr>script_ran = False, doc = d\<rparr>
      | Inr s \<Rightarrow> \<lparr>script_ran = True, doc = s\<rparr>)"

text \<open>
  What the user and other code can do to the page: click the toolbar button with a given
  title, set the checkbox, choose files in the file input, call \<^verbatim>\<open>setAIRunning()\<close>.
\<close>

datatype event =
    Click "string option"
  | Toggle bool
  | FileChange "File list"
  | Call_setAIRunning

text \<open>
  The effect of an event. A listener runs only if the script added it; setting the
  checkbox changes \<^verbatim>\<open>checked\<close> by itself, before any listener; a call of a function
  that was never defined throws a \<^verbatim>\<open>ReferenceError\<close>.
\<close>

definition dispatch :: "event \<Rightarrow> browser \<Rightarrow> error + browser" where
  "dispatch ev b =
     (case ev of
        Click title \<Rightarrow>
          Inr (if script_ran b then b\<lparr>doc := toolbtn_click title (doc b)\<rparr> else b)
      | Toggle c \<Rightarrow>
          Inr (if script_ran b
               then b\<lparr>doc := aiToggle_change ((doc b)\<lparr>aiToggle_checked := c\<rparr>)\<rparr>
               else b\<lparr>doc := (doc b)\<lparr>aiToggle_checked := c\<rparr>\<rparr>)
      | FileChange files \<Rightarrow>
          (if script_ran b
           then (case file_selector_change files (doc b) of
                   Inl e \<Rightarrow> Inl e
                 | Inr s \<Rightarrow> Inr (b\<lparr>doc := s\<rparr>))
           else Inr b)
      | Call_setAIRunning \<Rightarrow>
          (if script_ran b then Inr (b\<lparr>doc := setAIRunning (doc b)\<rparr>)
           else Inl ReferenceError))"

text \<open>
  The page as a document gives it, before any script: no scene, nothing requested or
  reported, the checkbox and the indicators as the markup has them.
\<close>

definition document_page :: "bool \<Rightarrow> string \<Rightarrow> string \<Rightarrow> string \<Rightarrow> page" where
  "document_page chk dot txt mode =
     \<lparr>scene_children = [], object_urls = [], loader_loads = [],
      animation_frames = 0, renders = 0,
      aiToggle_checked = chk, statusDot_className = dot,
      statusText_textContent = txt, modeIndicator_textContent = mode,
      alerts = [], console_log = [], console_warn = [], console_error = []\<rparr>"

text \<open>
  Two documents to evaluate on: one whose checkbox starts unchecked with the indicators
  at idle, and one whose checkbox starts checked.
\<close>

definition page_unlocked :: page where
  "page_unlocked = document_page False ''status-dot idle'' ''AI: IDLE'' ''MODE: IDLE''"

definition page_locked :: page where
  "page_locked = document_page True ''status-dot error'' ''AI: DISABLED'' ''MODE: IDLE''"

section \<open>The bodies of the listeners\<close>

lemma endsWith_suffix: "endsWith str search \<longleftrightarrow> suffix search str"
proof
  assume "endsWith str search"
  then have "str = take (length str - length search) str @ search"
    by (metis append_take_drop_id endsWith_def)
  then show "suffix search str"
    by (rule suffixI)
next
  assume "suffix search str"
  then obtain pre where "str = pre @ search"
    by (auto elim: suffixE)
  then show "endsWith str search"
    by (simp add: endsWith_def)
qed

lemma recognised_names:
  "endsWith ''model.glb'' ''.glb''" "endsWith ''model.gltf'' ''.gltf''"
  "\<not> endsWith ''model.txt'' ''.glb''" "\<not> endsWith ''model.txt'' ''.gltf''"
  "\<not> endsWith ''model.GLB'' ''.glb''" "\<not> endsWith ''model.GLB'' ''.gltf''"
  by (simp_all add: endsWith_def)

text \<open>
  What each body would do, were the listener in place. With the checkbox checked, the
  two guarded cases of the click listener only show one alert.
\<close>

lemma toolbtn_click_guarded:
  assumes "aiToggle_checked s"
    and "action = Some ''AI Tools'' \<or> action = Some ''Automated TEM''"
  shows "toolbtn_click action s =
           s\<lparr>alerts := alerts s @
              [if action = Some ''AI Tools'' then ''AI is disabled by shutoff switch.''
               else ''Disable AI shutoff to enable automation.'']\<rparr>"
  using assms by (auto simp add: toolbtn_click_def alert_def)

lemma toolbtn_click_human:
  "toolbtn_click (Some ''Human TEM Control'') s =
     s\<lparr>aiToggle_checked := True,
       modeIndicator_textContent := ''MODE: HUMAN CONTROL'',
       console_log := console_log s @ [[JString ''Switched to HUMAN CONTROL'']],
       statusDot_className := ''status-dot error'',
       statusText_textContent := ''AI: DISABLED''\<rparr>"
  by (simp add: toolbtn_click_def setStatus_def setMode_def)

lemma toolbtn_click_settings:
  "toolbtn_click (Some ''Settings'') s =
     s\<lparr>modeIndicator_textContent := ''MODE: SETTINGS'',
       console_log := console_log s @ [[JString ''Switched to SETTINGS'']],
       alerts := alerts s @ [''Settings panel coming soon'']\<rparr>"
  by (simp add: toolbtn_click_def setMode_def alert_def)

lemma toolbtn_click_graphs:
  "toolbtn_click (Some ''Graphs / Analysis'') s =
     s\<lparr>modeIndicator_textContent := ''MODE: ANALYSIS'',
       console_log := console_log s @ [[JString ''Switched to ANALYSIS'']],
       statusDot_className := ''status-dot idle'',
       statusText_textContent := ''AI: IDLE''\<rparr>"
  by (simp add: toolbtn_click_def setMode_def setStatus_def)

lemma toolbtn_click_images:
  "toolbtn_click (Some ''Captured Images'') s =
     s\<lparr>modeIndicator_textContent := ''MODE: IMAGE REVIEW'',
       console_log := console_log s @ [[JString ''Switched to IMAGE REVIEW'']]\<rparr>"
  by (simp add: toolbtn_click_def setMode_def)

lemma toolbtn_click_unknown:
  assumes "action \<notin> Some ` set toolbar_labels"
  shows "toolbtn_click action s =
           s\<lparr>console_warn := console_warn s @
               [[JString ''Unknown toolbar action:'', attribute_value action]]\<rparr>"
proof -
  from assms have "action \<noteq> Some ''Settings''" "action \<noteq> Some ''AI Tools''"
    "action \<noteq> Some ''Graphs / Analysis''" "action \<noteq> Some ''Captured Images''"
    "action \<noteq> Some ''Human TEM Control''" "action \<noteq> Some ''Automated TEM''"
    by (auto simp add: toolbar_labels_def)
  then show ?thesis
    by (simp add: toolbtn_click_def console_warn_call_def)
qed

lemma aiToggle_change_status:
  "aiToggle_change (s\<lparr>aiToggle_checked := True\<rparr>) =
     s\<lparr>aiToggle_checked := True,
       statusDot_className := ''status-dot error'',
       statusText_textContent := ''AI: DISABLED'',
       console_warn := console_warn s @
         [[JString (''AI shutoff engaged '' @ [CHR 0xE2, CHR 0x80, CHR 0x94]
                     @ '' hardware commands blocked.'')]]\<rparr>"
  "aiToggle_change (s\<lparr>aiToggle_checked := False\<rparr>) =
     s\<lparr>aiToggle_checked := False,
       statusDot_className := ''status-dot idle'',
       statusText_textContent := ''AI: IDLE''\<rparr>"
  by (simp_all add: aiToggle_change_def console_warn_call_def)

lemma setAIRunning_body:
  "setAIRunning s = (if aiToggle_checked s then s else setStatus ''running'' ''RUNNING'' s)"
  by (simp add: setAIRunning_def setStatus_def)

lemma onLoad_scene: "scene_children (onLoad g s) = [light, Group (scene g)]"
  by (simp add: onLoad_def animate_def scene_add_def scene_clear_def light_def)


lemma file_selector_change_model:
  assumes "endsWith (name f) ''.glb'' \<or> endsWith (name f) ''.gltf''"
  shows "file_selector_change (f # fs) s =
           Inr (s\<lparr>object_urls := object_urls s @ [f],
                  loader_loads := loader_loads s @ [length (object_urls s)]\<rparr>)"
  using assms
  by (simp add: file_selector_change_def createObjectURL_def GLTFLoader_load_def)

text \<open>
  C7: for a file whose name ends neither in \<^verbatim>\<open>.glb\<close> nor in \<^verbatim>\<open>.gltf\<close>, compared
  character by character (so \<^verbatim>\<open>model.GLB\<close> is not recognised), the handler only
  registers an object URL: the scene is not touched and the loader is not called.
\<close>

theorem other_extension_ignored:
  assumes "\<not> endsWith (name f) ''.glb''" and "\<not> endsWith (name f) ''.gltf''"
  shows "file_selector_change (f # fs) s = Inr (s\<lparr>object_urls := object_urls s @ [f]\<rparr>)
       \<and> (\<forall>s1. file_selector_change (f # fs) s = Inr s1 \<longrightarrow>
            scene_children s1 = scene_children s \<and> loader_loads s1 = loader_loads s)"
  using assms by (simp add: file_selector_change_def createObjectURL_def)

theorem other_extension_ignored_witness:
  "\<not> endsWith (name \<lparr>name = ''model.txt''\<rparr>) ''.glb''
   \<and> \<not> endsWith (name \<lparr>name = ''model.txt''\<rparr>) ''.gltf''
   \<and> file_selector_change [\<lparr>name = ''model.txt''\<rparr>] page_unlocked =
       Inr (page_unlocked\<lparr>object_urls := object_urls page_unlocked @ [\<lparr>name = ''model.txt''\<rparr>]\<rparr>)
   \<and> \<not> endsWith (name \<lparr>name = ''model.GLB''\<rparr>) ''.glb''
   \<and> \<not> endsWith (name \<lparr>name = ''model.GLB''\<rparr>) ''.gltf''
   \<and> file_selector_change [\<lparr>name = ''model.GLB''\<rparr>] page_unlocked =
       Inr (page_unlocked\<lparr>object_urls := object_urls page_unlocked @ [\<lparr>name = ''model.GLB''\<rparr>]\<rparr>)"
proof -
  have a: "\<not> endsWith (name \<lparr>name = ''model.txt''\<rparr>) ''.glb''"
    and b: "\<not> endsWith (name \<lparr>name = ''model.txt''\<rparr>) ''.gltf''"
    and c: "\<not> endsWith (name \<lparr>name = ''model.GLB''\<rparr>) ''.glb''"
    and d: "\<not> endsWith (name \<lparr>name = ''model.GLB''\<rparr>) ''.gltf''"
    by (simp_all add: recognised_names)
  from a b c d other_extension_ignored [OF a b, of "[]" page_unlocked]
    other_extension_ignored [OF c d, of "[]" page_unlocked]
  show ?thesis by blast
qed

section \<open>The script as shipped\<close>

lemma script_has_early_error: "early_error toplevel_declarations"
  by (simp add: early_error_def declared_names_def toplevel_declarations_def)

lemma script_js_rejected: "script_js d = Inl SyntaxError"
  by (simp add: script_js_def script_has_early_error)

lemma load_script_nothing: "load_script d = \<lparr>script_ran = False, doc = d\<rparr>"
  by (simp add: load_script_def script_js_rejected)

text \<open>
  So on the script as shipped a click and a choice of files leave the page as it was,
  whatever the title and whatever the files; setting the checkbox changes the checkbox
  only; and \<^verbatim>\<open>setAIRunning\<close> cannot be called.
\<close>

lemma dispatch_shipped:
  "dispatch (Click title) (load_script d) = Inr (load_script d)"
  "dispatch (Toggle c) (load_script d) = Inr (load_script (d\<lparr>aiToggle_checked := c\<rparr>))"
  "dispatch (FileChange files) (load_script d) = Inr (load_script d)"
  "dispatch Call_setAIRunning (load_script d) = Inl ReferenceError"
  by (simp_all add: dispatch_def load_script_nothing)

lemma example_documents:
  "\<not> aiToggle_checked page_unlocked" "aiToggle_checked page_locked"
  "alerts page_locked = []" "console_warn page_locked = []" "console_warn page_unlocked = []"
  "console_error page_unlocked = []" "loader_loads page_unlocked = []"
  "scene_children page_unlocked = []"
  "statusDot_className page_unlocked = ''status-dot idle''"
  "statusText_textContent page_unlocked = ''AI: IDLE''"
  "modeIndicator_textContent page_unlocked = ''MODE: IDLE''"
  "modeIndicator_textContent page_locked = ''MODE: IDLE''"
  by (simp_all add: page_unlocked_def page_locked_def document_page_def)

text \<open>
  C1 fails on the script as shipped. Document with the checkbox checked, click on
  "AI Tools": the page is left as it was and no alert is shown, where the claim has
  exactly one rejection notice (which the body of the listener would show).
\<close>

theorem shipped_ai_tools_click_no_notice:
  "aiToggle_checked (doc (load_script page_locked))
   \<and> dispatch (Click (Some ''AI Tools'')) (load_script page_locked) = Inr (load_script page_locked)
   \<and> alerts (doc (load_script page_locked)) = []
   \<and> alerts (toolbtn_click (Some ''AI Tools'') page_locked) = [''AI is disabled by shutoff switch.'']"
  by (simp add: dispatch_def load_script_nothing example_documents toolbtn_click_guarded)

text \<open>
  C2 fails on the script as shipped. Document with the checkbox unchecked, click on
  "Human TEM Control": the checkbox stays unchecked and the mode and the status stay
  as they were, where the claim has the checkbox checked, the mode "HUMAN CONTROL" and
  the status (error, "DISABLED").
\<close>

theorem shipped_human_control_click_no_shutoff:
  "dispatch (Click (Some ''Human TEM Control'')) (load_script page_unlocked) =
     Inr (load_script page_unlocked)
   \<and> \<not> aiToggle_checked (doc (load_script page_unlocked))
   \<and> modeIndicator_textContent (doc (load_script page_unlocked)) = ''MODE: IDLE''
   \<and> statusDot_className (doc (load_script page_unlocked)) = ''status-dot idle''
   \<and> statusText_textContent (doc (load_script page_unlocked)) = ''AI: IDLE''
   \<and> aiToggle_checked (toolbtn_click (Some ''Human TEM Control'') page_unlocked)"
  by (simp add: dispatch_def load_script_nothing example_documents toolbtn_click_human)

text \<open>
  C3 fails on the script as shipped. Document with the checkbox unchecked and the status
  at idle, checkbox toggled to checked: the checkbox is checked, the status stays
  \<^verbatim>\<open>status-dot idle\<close> / \<^verbatim>\<open>AI: IDLE\<close> and nothing is logged, where the claim has
  \<^verbatim>\<open>status-dot error\<close> / \<^verbatim>\<open>AI: DISABLED\<close>.
\<close>

theorem shipped_toggle_keeps_status:
  "dispatch (Toggle True) (load_script page_unlocked) =
     Inr (load_script (page_unlocked\<lparr>aiToggle_checked := True\<rparr>))
   \<and> aiToggle_checked (doc (load_script (page_unlocked\<lparr>aiToggle_checked := True\<rparr>)))
   \<and> statusDot_className (doc (load_script (page_unlocked\<lparr>aiToggle_checked := True\<rparr>))) =
       ''status-dot idle''
   \<and> statusText_textContent (doc (load_script (page_unlocked\<lparr>aiToggle_checked := True\<rparr>))) =
       ''AI: IDLE''
   \<and> console_warn (doc (load_script (page_unlocked\<lparr>aiToggle_checked := True\<rparr>))) = []
   \<and> statusText_textContent (aiToggle_change (page_unlocked\<lparr>aiToggle_checked := True\<rparr>)) =
       ''AI: DISABLED''"
  by (simp add: dispatch_def load_script_nothing example_documents aiToggle_change_status)

text \<open>
  C4 fails on the script as shipped. Document with the checkbox unchecked, call of
  \<^verbatim>\<open>setAIRunning()\<close>: the function does not exist, the call throws a \<^verbatim>\<open>ReferenceError\<close>
  and the status stays at idle, where the claim has the status (running, "RUNNING").
\<close>

theorem shipped_setAIRunning_undefined:
  "\<not> aiToggle_checked (doc (load_script page_unlocked))
   \<and> dispatch Call_setAIRunning (load_script page_unlocked) = Inl ReferenceError
   \<and> statusDot_className (doc (load_script page_unlocked)) = ''status-dot idle''
   \<and> statusText_textContent (doc (load_script page_unlocked)) = ''AI: IDLE''
   \<and> statusText_textContent (setAIRunning page_unlocked) = ''AI: RUNNING''"
  by (simp add: dispatch_def load_script_nothing example_documents setAIRunning_body
      setStatus_def)

text \<open>
  C5 fails on the script as shipped. File \<^verbatim>\<open>model.glb\<close> chosen in the file input: no
  object URL is made and no load is requested, so no decode can complete, and the scene
  has no child, neither light nor asset; the claim has one light and the decoded
  subtree (what the success callback would leave).
\<close>

theorem shipped_glb_never_loaded:
  "endsWith (name \<lparr>name = ''model.glb''\<rparr>) ''.glb''
   \<and> dispatch (FileChange [\<lparr>name = ''model.glb''\<rparr>]) (load_script page_unlocked) =
       Inr (load_script page_unlocked)
   \<and> loader_loads (doc (load_script page_unlocked)) = []
   \<and> scene_children (doc (load_script page_unlocked)) = []
   \<and> scene_children (onLoad \<lparr>scene = 7\<rparr> page_unlocked) = [light, Group 7]"
  by (simp add: dispatch_def load_script_nothing example_documents recognised_names
      onLoad_scene)


text \<open>
  C8 fails on the script as shipped. Document with the checkbox checked, click on
  "Settings": the mode stays as it was and no notice is shown, where the claim has the
  action succeed (mode "SETTINGS" and the notice).
\<close>

theorem shipped_settings_click_no_update:
  "aiToggle_checked (doc (load_script page_locked))
   \<and> dispatch (Click (Some ''Settings'')) (load_script page_locked) = Inr (load_script page_locked)
   \<and> modeIndicator_textContent (doc (load_script page_locked)) = ''MODE: IDLE''
   \<and> alerts (doc (load_script page_locked)) = []
   \<and> modeIndicator_textContent (toolbtn_click (Some ''Settings'') page_locked) = ''MODE: SETTINGS''"
  by (simp add: dispatch_def load_script_nothing example_documents toolbtn_click_settings)

text \<open>
  C9 fails on the script as shipped. Click on a button titled "Help", which is none of
  the six labels: nothing is logged, where the claim has exactly one warning (which the
  default case would log).
\<close>

theorem shipped_unknown_click_no_warning:
  "Some ''Help'' \<notin> Some ` set toolbar_labels
   \<and> dispatch (Click (Some ''Help'')) (load_script page_unlocked) = Inr (load_script page_unlocked)
   \<and> console_warn (doc (load_script page_unlocked)) = []
   \<and> console_warn (toolbtn_click (Some ''Help'') page_unlocked) =
       [[JString ''Unknown toolbar action:'', JString ''Help'']]"
proof -
  have a: "Some ''Help'' \<notin> Some ` set toolbar_labels"
    by (simp add: toolbar_labels_def)
  from a toolbtn_click_unknown [OF a, of page_unlocked] show ?thesis
    by (simp add: dispatch_def load_script_nothing example_documents attribute_value_def)
qed


end
